theory Spec2Isabelle
  imports Complex_Main "HOL-Library.Word"
begin

section \<open>The video player of \<^verbatim>\<open>VideoPlayer.cpp\<close>\<close>

text \<open>
  The program is one class, \<^verbatim>\<open>VideoPlayer\<close>, around two library objects: a
  \<^verbatim>\<open>cv::VideoCapture\<close> (the decoder) and a \<^verbatim>\<open>cv::Mat\<close> (the frame it holds).
  The class is embedded as a record and every member function as a function from the
  record to the updated record and the returned flag. The decoder is a library, not
  part of the program: it is a parameter of every member function, so each theorem
  holds for every decoder.
\<close>

subsection \<open>Machine integers\<close>

text \<open>
  \<^verbatim>\<open>int\<close> is a 32-bit two's complement integer: a word, compared through its signed
  value. Signed overflow is undefined in C++; the word operations wrap, which is what
  the usual targets do. The only subtraction of the program that is not guarded is
  \<^verbatim>\<open>totalFrames - 1\<close>.
\<close>

type_synonym cint = "32 word"

text \<open>
  \<^verbatim>\<open>static_cast<int>(double)\<close> drops the fraction (rounds towards zero). A value that
  does not fit an \<^verbatim>\<open>int\<close> is undefined in C++; the compiled conversion then gives the
  least \<^verbatim>\<open>int\<close>, and so does this one. A \<^verbatim>\<open>double\<close> is only stored, copied, printed
  and cast by this program; it is a real number here.
\<close>

definition static_cast_int :: "real \<Rightarrow> cint" where
  "static_cast_int x =
     (let t = (if 0 \<le> x then \<lfloor>x\<rfloor> else \<lceil>x\<rceil>)
      in if - 2147483648 \<le> t \<and> t \<le> 2147483647 then word_of_int t else - 2147483648)"

text \<open>The implicit conversion of an \<^verbatim>\<open>int\<close> argument to \<^verbatim>\<open>double\<close> is exact.\<close>

definition to_double :: "cint \<Rightarrow> real" where
  "to_double n = real_of_int (sint n)"

subsection \<open>The library objects\<close>

text \<open>
  A \<^verbatim>\<open>cv::Mat\<close> is empty (as the default-constructed one is) or holds an image.
\<close>

datatype 'img Mat = Mat_empty | Mat_image 'img

fun Mat_is_empty :: "'img Mat \<Rightarrow> bool" where
  "Mat_is_empty Mat_empty = True"
| "Mat_is_empty (Mat_image _) = False"

datatype cap_prop = CAP_PROP_POS_FRAMES | CAP_PROP_FPS | CAP_PROP_FRAME_COUNT

text \<open>
  The member functions of \<^verbatim>\<open>cv::VideoCapture\<close> that the program calls, over a decoder
  state \<open>'c\<close>. \<^verbatim>\<open>open\<close>, \<^verbatim>\<open>set\<close> and \<^verbatim>\<open>read\<close> change the decoder; \<^verbatim>\<open>isOpened\<close> and
  \<^verbatim>\<open>get\<close> are \<^verbatim>\<open>const\<close>. \<^verbatim>\<open>read\<close> receives the caller's \<^verbatim>\<open>Mat\<close> by reference: it is given
  the image held so far and returns the image held afterwards, together with its flag.
\<close>

record ('c, 'img) VideoCapture =
  cap_open :: "'c \<Rightarrow> string \<Rightarrow> 'c \<times> bool"
  cap_isOpened :: "'c \<Rightarrow> bool"
  cap_get :: "'c \<Rightarrow> cap_prop \<Rightarrow> real"
  cap_set :: "'c \<Rightarrow> cap_prop \<Rightarrow> real \<Rightarrow> 'c \<times> bool"
  cap_read :: "'c \<Rightarrow> 'img Mat \<Rightarrow> 'c \<times> 'img Mat \<times> bool"

subsection \<open>The class\<close>

record ('c, 'img) VideoPlayer =
  cap :: 'c
  currentFrame :: "'img Mat"
  windowName :: string
  totalFrames :: cint
  currentFrameNumber :: cint
  fps :: real

text \<open>The constructor, around a default-constructed (closed) decoder \<open>c0\<close>.\<close>

definition VideoPlayer_new :: "'c \<Rightarrow> ('c, 'img) VideoPlayer" where
  "VideoPlayer_new c0 =
     \<lparr>cap = c0, currentFrame = Mat_empty, windowName = ''Simple Video Player'',
      totalFrames = 0, currentFrameNumber = 0, fps = 30\<rparr>"

text \<open>
  \<^verbatim>\<open>loadVideo\<close>. The flag of \<^verbatim>\<open>cap.open\<close> is dropped: the code asks \<^verbatim>\<open>isOpened\<close>. The
  three fields are assigned before the first frame is read, and nothing is undone or
  closed when that read fails. What is printed is not part of the record.
\<close>

definition loadVideo ::
  "('c, 'img) VideoCapture \<Rightarrow> string \<Rightarrow> ('c, 'img) VideoPlayer \<Rightarrow> ('c, 'img) VideoPlayer \<times> bool"
where
  "loadVideo cv filename s =
     (let s1 = s\<lparr>cap := fst (cap_open cv (cap s) filename)\<rparr> in
      if \<not> cap_isOpened cv (cap s1) then (s1, False)
      else
        let s2 = s1\<lparr>totalFrames := static_cast_int (cap_get cv (cap s1) CAP_PROP_FRAME_COUNT)\<rparr>;
            s3 = s2\<lparr>fps := cap_get cv (cap s2) CAP_PROP_FPS\<rparr>;
            s4 = s3\<lparr>currentFrameNumber := 0\<rparr>
        in case cap_read cv (cap s4) (currentFrame s4) of
             (c', f', ok) \<Rightarrow>
               if \<not> ok then (s4\<lparr>cap := c', currentFrame := f'\<rparr>, False)
               else (s4\<lparr>cap := c', currentFrame := f'\<rparr>, True))"

text \<open>\<^verbatim>\<open>nextFrame\<close>: the guard, then one sequential read.\<close>

definition nextFrame ::
  "('c, 'img) VideoCapture \<Rightarrow> ('c, 'img) VideoPlayer \<Rightarrow> ('c, 'img) VideoPlayer \<times> bool"
where
  "nextFrame cv s =
     (if totalFrames s - 1 \<le>s currentFrameNumber s then (s, False)
      else case cap_read cv (cap s) (currentFrame s) of
        (c', f', ok) \<Rightarrow>
          if ok then
            (s\<lparr>cap := c', currentFrame := f', currentFrameNumber := currentFrameNumber s + 1\<rparr>, True)
          else (s\<lparr>cap := c', currentFrame := f'\<rparr>, False))"

text \<open>
  \<^verbatim>\<open>previousFrame\<close>: the guard, the decrement, the seek to the decremented position
  (its flag dropped), then the read.
\<close>

definition previousFrame ::
  "('c, 'img) VideoCapture \<Rightarrow> ('c, 'img) VideoPlayer \<Rightarrow> ('c, 'img) VideoPlayer \<times> bool"
where
  "previousFrame cv s =
     (if currentFrameNumber s \<le>s 0 then (s, False)
      else
        let s1 = s\<lparr>currentFrameNumber := currentFrameNumber s - 1\<rparr>;
            s2 = s1\<lparr>cap := fst (cap_set cv (cap s1) CAP_PROP_POS_FRAMES
                                  (to_double (currentFrameNumber s1)))\<rparr>
        in case cap_read cv (cap s2) (currentFrame s2) of
             (c', f', ok) \<Rightarrow>
               if ok then (s2\<lparr>cap := c', currentFrame := f'\<rparr>, True)
               else (s2\<lparr>cap := c', currentFrame := f'\<rparr>, False))"

text \<open>
  \<^verbatim>\<open>seekToFrame\<close>: the range check, the seek (its flag dropped), the read, and the
  assignment of the position when the read succeeded.
\<close>

definition seekToFrame ::
  "('c, 'img) VideoCapture \<Rightarrow> cint \<Rightarrow> ('c, 'img) VideoPlayer \<Rightarrow> ('c, 'img) VideoPlayer \<times> bool"
where
  "seekToFrame cv frameNumber s =
     (if frameNumber <s 0 \<or> totalFrames s \<le>s frameNumber then (s, False)
      else
        let s1 = s\<lparr>cap := fst (cap_set cv (cap s) CAP_PROP_POS_FRAMES (to_double frameNumber))\<rparr>
        in case cap_read cv (cap s1) (currentFrame s1) of
             (c', f', ok) \<Rightarrow>
               if ok then (s1\<lparr>cap := c', currentFrame := f', currentFrameNumber := frameNumber\<rparr>, True)
               else (s1\<lparr>cap := c', currentFrame := f'\<rparr>, False))"

definition getCurrentFrame :: "('c, 'img) VideoPlayer \<Rightarrow> cint" where
  "getCurrentFrame s = currentFrameNumber s"

definition getTotalFrames :: "('c, 'img) VideoPlayer \<Rightarrow> cint" where
  "getTotalFrames s = totalFrames s"

definition getFPS :: "('c, 'img) VideoPlayer \<Rightarrow> real" where
  "getFPS s = fps s"

subsection \<open>The console\<close>

text \<open>
  \<^verbatim>\<open>std::cin >> targetFrame\<close> is the formatted extraction of an \<^verbatim>\<open>int\<close> as C++11 defines
  it, in the classic locale. With a state bit already set nothing is read and the
  variable keeps what it held. Otherwise white space is skipped; at the end of the
  input the fail and end bits are set and the variable keeps what it held. Otherwise
  an optional sign and the decimal digits that follow are taken: with no digit the
  variable is set to 0 and the fail bit is set; a value out of range sets the nearest
  bound and the fail bit. What follows the digits stays in the buffer.
\<close>

record istream =
  buffer :: string
  failbit :: bool
  eofbit :: bool

definition isspace :: "char \<Rightarrow> bool" where
  "isspace c = (c = CHR '' '' \<or> (9 \<le> (of_char c :: nat) \<and> (of_char c :: nat) \<le> 13))"

definition isdigit :: "char \<Rightarrow> bool" where
  "isdigit c = (48 \<le> (of_char c :: nat) \<and> (of_char c :: nat) \<le> 57)"

definition decimal :: "string \<Rightarrow> int" where
  "decimal ds = foldl (\<lambda>a c. 10 * a + (int (of_char c) - 48)) 0 ds"

definition cin_extract_int :: "istream \<Rightarrow> cint \<Rightarrow> istream \<times> cint" where
  "cin_extract_int inp v =
     (if failbit inp \<or> eofbit inp then (inp\<lparr>failbit := True\<rparr>, v)
      else
        let rest = dropWhile isspace (buffer inp) in
        if rest = [] then (inp\<lparr>buffer := [], failbit := True, eofbit := True\<rparr>, v)
        else
          let neg = (hd rest = CHR ''-'');
              r1 = (if hd rest = CHR ''-'' \<or> hd rest = CHR ''+'' then tl rest else rest);
              ds = takeWhile isdigit r1;
              r2 = dropWhile isdigit r1;
              inp' = inp\<lparr>buffer := r2, eofbit := (r2 = [])\<rparr>;
              n = (if neg then - decimal ds else decimal ds)
          in if ds = [] then (inp'\<lparr>failbit := True\<rparr>, 0)
             else if 2147483647 < n then (inp'\<lparr>failbit := True\<rparr>, 2147483647)
             else if n < - 2147483648 then (inp'\<lparr>failbit := True\<rparr>, - 2147483648)
             else (inp', word_of_int n))"

subsection \<open>The playback loop\<close>

text \<open>
  What the loop prints, one constructor for each output statement of the \<^verbatim>\<open>switch\<close>
  (and the one before the loop).
\<close>

datatype message =
    No_video_loaded
  | Playing
  | Paused
  | End_of_video_reached
  | Beginning_of_video_reached
  | Jumped_to_first_frame
  | Jumped_to_last_frame
  | Enter_frame_number cint
  | Jumped_to_frame cint
  | Invalid_frame_number

text \<open>
  The state of \<^verbatim>\<open>startPlayback\<close>: the object, the two local flags, and the two streams.
\<close>

record ('c, 'img) playback =
  player :: "('c, 'img) VideoPlayer"
  playing :: bool
  quit :: bool
  cin :: istream
  cout :: "message list"

text \<open>\<^verbatim>\<open>if (!nextFrame()) { ...; playing = false; }\<close>, which two cases share.\<close>

definition step_forward ::
  "('c, 'img) VideoCapture \<Rightarrow> ('c, 'img) playback \<Rightarrow> ('c, 'img) playback"
where
  "step_forward cv st =
     (case nextFrame cv (player st) of
        (p, ok) \<Rightarrow>
          if \<not> ok then st\<lparr>player := p, cout := cout st @ [End_of_video_reached], playing := False\<rparr>
          else st\<lparr>player := p\<rparr>)"

text \<open>
  The \<^verbatim>\<open>switch\<close> on \<^verbatim>\<open>key\<close>, the low byte of what \<^verbatim>\<open>cv::waitKey\<close> returned (255 when
  the wait timed out). \<open>indet\<close> is what the uninitialised local \<^verbatim>\<open>targetFrame\<close>
  happens to hold. Drawing the frame and printing the progress line read the object
  and do not change it.
\<close>

definition handle_key ::
  "('c, 'img) VideoCapture \<Rightarrow> cint \<Rightarrow> char \<Rightarrow> ('c, 'img) playback \<Rightarrow> ('c, 'img) playback"
where
  "handle_key cv indet key st =
     (if key = CHR ''q'' \<or> key = CHR ''Q'' then st\<lparr>quit := True\<rparr>
      else if key = CHR '' '' then
        st\<lparr>playing := \<not> playing st,
           cout := cout st @ [if \<not> playing st then Playing else Paused]\<rparr>
      else if key = CHR ''d'' \<or> key = CHR ''D'' then step_forward cv st
      else if key = CHR ''a'' \<or> key = CHR ''A'' then
        (case previousFrame cv (player st) of
           (p, ok) \<Rightarrow>
             if \<not> ok then st\<lparr>player := p, cout := cout st @ [Beginning_of_video_reached]\<rparr>
             else st\<lparr>player := p\<rparr>)
      else if key = CHR ''h'' \<or> key = CHR ''H'' then
        st\<lparr>player := fst (seekToFrame cv 0 (player st)),
           cout := cout st @ [Jumped_to_first_frame]\<rparr>
      else if key = CHR ''e'' \<or> key = CHR ''E'' then
        st\<lparr>player := fst (seekToFrame cv (totalFrames (player st) - 1) (player st)),
           cout := cout st @ [Jumped_to_last_frame]\<rparr>
      else if key = CHR ''g'' \<or> key = CHR ''G'' then
        (let st1 = st\<lparr>cout := cout st @ [Enter_frame_number (totalFrames (player st))]\<rparr> in
         case cin_extract_int (cin st1) indet of
           (inp, targetFrame) \<Rightarrow>
             let st2 = st1\<lparr>cin := inp\<rparr> in
             if 1 \<le>s targetFrame \<and> targetFrame \<le>s totalFrames (player st2) then
               st2\<lparr>player := fst (seekToFrame cv (targetFrame - 1) (player st2)),
                    cout := cout st2 @ [Jumped_to_frame targetFrame]\<rparr>
             else st2\<lparr>cout := cout st2 @ [Invalid_frame_number]\<rparr>)
      else if playing st then step_forward cv st
      else st)"

text \<open>
  The loop runs until \<^verbatim>\<open>quit\<close> is set. Each turn takes one event: the key and the
  indeterminate content of \<^verbatim>\<open>targetFrame\<close>. When the events run out before a quit
  key the loop is still waiting in \<^verbatim>\<open>cv::waitKey\<close>: it has not returned (\<open>None\<close>).
\<close>

fun playback_loop ::
  "('c, 'img) VideoCapture \<Rightarrow> (char \<times> cint) list \<Rightarrow> ('c, 'img) playback \<Rightarrow> ('c, 'img) playback option"
where
  "playback_loop cv [] st = (if quit st then Some st else None)"
| "playback_loop cv (e # es) st =
     (if quit st then Some st else playback_loop cv es (handle_key cv (snd e) (fst e) st))"

definition startPlayback ::
  "('c, 'img) VideoCapture \<Rightarrow> (char \<times> cint) list \<Rightarrow> istream \<Rightarrow> ('c, 'img) VideoPlayer \<Rightarrow> ('c, 'img) playback option"
where
  "startPlayback cv events inp s =
     (if Mat_is_empty (currentFrame s) then
        Some \<lparr>player = s, playing = False, quit = False, cin = inp, cout = [No_video_loaded]\<rparr>
      else
        playback_loop cv events
          \<lparr>player = s, playing = False, quit = False, cin = inp, cout = []\<rparr>)"

subsection \<open>Runs of calls\<close>

text \<open>\<open>n\<close> calls of \<^verbatim>\<open>nextFrame\<close> in a row, with the flag each returned.\<close>

fun nextFrames ::
  "('c, 'img) VideoCapture \<Rightarrow> nat \<Rightarrow> ('c, 'img) VideoPlayer \<Rightarrow> ('c, 'img) VideoPlayer \<times> bool list"
where
  "nextFrames cv 0 s = (s, [])"
| "nextFrames cv (Suc n) s =
     (case nextFrame cv s of
        (s', ok) \<Rightarrow> (case nextFrames cv n s' of (s'', oks) \<Rightarrow> (s'', ok # oks)))"

text \<open>The next \<open>n\<close> sequential reads of the decoder all succeed.\<close>

fun reads_succeed :: "('c, 'img) VideoCapture \<Rightarrow> nat \<Rightarrow> 'c \<Rightarrow> 'img Mat \<Rightarrow> bool" where
  "reads_succeed cv 0 c m = True"
| "reads_succeed cv (Suc n) c m =
     (case cap_read cv c m of (c', m', ok) \<Rightarrow> ok \<and> reads_succeed cv n c' m')"

text \<open>Any sequence of the three navigation calls, their flags dropped.\<close>

datatype call = NextFrame | PreviousFrame | SeekToFrame cint

fun do_call ::
  "('c, 'img) VideoCapture \<Rightarrow> call \<Rightarrow> ('c, 'img) VideoPlayer \<Rightarrow> ('c, 'img) VideoPlayer"
where
  "do_call cv NextFrame s = fst (nextFrame cv s)"
| "do_call cv PreviousFrame s = fst (previousFrame cv s)"
| "do_call cv (SeekToFrame n) s = fst (seekToFrame cv n s)"

fun do_calls ::
  "('c, 'img) VideoCapture \<Rightarrow> call list \<Rightarrow> ('c, 'img) VideoPlayer \<Rightarrow> ('c, 'img) VideoPlayer"
where
  "do_calls cv [] s = s"
| "do_calls cv (c # cs) s = do_calls cv cs (do_call cv c s)"

text \<open>The position is an index into the frames the header counts.\<close>

definition in_range :: "('c, 'img) VideoPlayer \<Rightarrow> bool" where
  "in_range s =
     (0 \<le> sint (currentFrameNumber s) \<and> sint (currentFrameNumber s) \<le> sint (totalFrames s) - 1)"

subsection \<open>A decoder of files\<close>

text \<open>
  One decoder, for the concrete runs below. A file has a header (frame count and rate)
  and a sequence of frames, each decodable or not; the header need not agree with the
  frames. The decoder follows the documented contract of \<^verbatim>\<open>cv::VideoCapture\<close>:
  \<^verbatim>\<open>open\<close> closes what was open before; \<^verbatim>\<open>set\<close> of the position moves the read
  position; \<^verbatim>\<open>read\<close> hands out the frame at the read position and moves on, and when
  there is no frame it returns false and leaves the caller's image empty.
\<close>

record 'img video =
  vid_frames :: "'img option list"
  vid_frame_count :: real
  vid_fps :: real

record 'img capture =
  src :: "'img video option"
  pos :: nat

definition closed_capture :: "'img capture" where
  "closed_capture = \<lparr>src = None, pos = 0\<rparr>"

definition file_open :: "(string \<Rightarrow> 'img video option) \<Rightarrow> 'img capture \<Rightarrow> string \<Rightarrow> 'img capture \<times> bool" where
  "file_open fs c name =
     (case fs name of
        None \<Rightarrow> (\<lparr>src = None, pos = 0\<rparr>, False)
      | Some v \<Rightarrow> (\<lparr>src = Some v, pos = 0\<rparr>, True))"

definition file_isOpened :: "'img capture \<Rightarrow> bool" where
  "file_isOpened c = (case src c of None \<Rightarrow> False | Some v \<Rightarrow> True)"

definition file_get :: "'img capture \<Rightarrow> cap_prop \<Rightarrow> real" where
  "file_get c p =
     (case src c of
        None \<Rightarrow> 0
      | Some v \<Rightarrow>
          (case p of
             CAP_PROP_POS_FRAMES \<Rightarrow> real (pos c)
           | CAP_PROP_FPS \<Rightarrow> vid_fps v
           | CAP_PROP_FRAME_COUNT \<Rightarrow> vid_frame_count v))"

definition file_set :: "'img capture \<Rightarrow> cap_prop \<Rightarrow> real \<Rightarrow> 'img capture \<times> bool" where
  "file_set c p x =
     (case src c of
        None \<Rightarrow> (c, False)
      | Some v \<Rightarrow>
          (case p of
             CAP_PROP_POS_FRAMES \<Rightarrow> if x < 0 then (c, False) else (c\<lparr>pos := nat \<lfloor>x\<rfloor>\<rparr>, True)
           | CAP_PROP_FPS \<Rightarrow> (c, False)
           | CAP_PROP_FRAME_COUNT \<Rightarrow> (c, False)))"

definition file_read :: "'img capture \<Rightarrow> 'img Mat \<Rightarrow> 'img capture \<times> 'img Mat \<times> bool" where
  "file_read c m =
     (case src c of
        None \<Rightarrow> (c, Mat_empty, False)
      | Some v \<Rightarrow>
          if pos c < length (vid_frames v) then
            (case vid_frames v ! pos c of
               Some img \<Rightarrow> (c\<lparr>pos := pos c + 1\<rparr>, Mat_image img, True)
             | None \<Rightarrow> (c\<lparr>pos := pos c + 1\<rparr>, Mat_empty, False))
          else (c, Mat_empty, False))"

definition file_capture :: "(string \<Rightarrow> 'img video option) \<Rightarrow> ('img capture, 'img) VideoCapture" where
  "file_capture fs =
     \<lparr>cap_open = file_open fs, cap_isOpened = file_isOpened, cap_get = file_get,
      cap_set = file_set, cap_read = file_read\<rparr>"

text \<open>
  Four files, with natural numbers for images: ten good frames; a header of ten frames
  and no frame that decodes; two good frames under a header that gives no count; and
  three frames of which the middle one does not decode.
\<close>

definition clip10 :: "nat video" where
  "clip10 = \<lparr>vid_frames = map Some [0, 1, 2, 3, 4, 5, 6, 7, 8, 9], vid_frame_count = 10, vid_fps = 25\<rparr>"

definition broken :: "nat video" where
  "broken = \<lparr>vid_frames = [], vid_frame_count = 10, vid_fps = 25\<rparr>"

definition uncounted :: "nat video" where
  "uncounted = \<lparr>vid_frames = [Some 0, Some 1], vid_frame_count = 0, vid_fps = 25\<rparr>"

definition gap :: "nat video" where
  "gap = \<lparr>vid_frames = [Some 0, None, Some 2], vid_frame_count = 3, vid_fps = 25\<rparr>"

definition disk :: "string \<Rightarrow> nat video option" where
  "disk name =
     (if name = ''clip10.avi'' then Some clip10
      else if name = ''broken.avi'' then Some broken
      else if name = ''uncounted.avi'' then Some uncounted
      else if name = ''gap.avi'' then Some gap
      else None)"

definition cv0 :: "(nat capture, nat) VideoCapture" where
  "cv0 = file_capture disk"

definition player0 :: "(nat capture, nat) VideoPlayer" where
  "player0 = VideoPlayer_new closed_capture"

text \<open>
  The player that shows frame \<open>k\<close> of file \<open>v\<close>: the decoder stands behind the frame,
  the image is the frame's, and the fields are those \<^verbatim>\<open>loadVideo\<close> read from the header.
\<close>

definition showing :: "nat video \<Rightarrow> nat \<Rightarrow> (nat capture, nat) VideoPlayer" where
  "showing v k =
     \<lparr>cap = \<lparr>src = Some v, pos = k + 1\<rparr>, currentFrame = Mat_image k,
      windowName = ''Simple Video Player'',
      totalFrames = static_cast_int (vid_frame_count v), currentFrameNumber = of_nat k,
      fps = vid_fps v\<rparr>"

text \<open>
  The same decoder, except that it cannot seek: \<^verbatim>\<open>set\<close> returns false and leaves the
  read position where it was, as a source without random access does.
\<close>

definition no_seek :: "('c, 'img) VideoCapture \<Rightarrow> ('c, 'img) VideoCapture" where
  "no_seek cv = cv\<lparr>cap_set := (\<lambda>c p x. (c, False))\<rparr>"

text \<open>
  The same decoder, except that a failed read hands the caller's image back as it
  was.
\<close>

definition keep_on_failure :: "('c, 'img) VideoCapture \<Rightarrow> ('c, 'img) VideoCapture" where
  "keep_on_failure cv =
     cv\<lparr>cap_read := (\<lambda>c m. case cap_read cv c m of (c', m', ok) \<Rightarrow> (c', if ok then m' else m, ok))\<rparr>"


section \<open>Concrete runs\<close>

lemmas file_capture_simps =
  cv0_def file_capture_def file_open_def file_isOpened_def file_get_def file_set_def
  file_read_def disk_def player0_def VideoPlayer_new_def closed_capture_def showing_def
  static_cast_int_def to_double_def

lemma load_clip10: "loadVideo cv0 ''clip10.avi'' player0 = (showing clip10 0, True)"
  by (simp add: loadVideo_def file_capture_simps clip10_def)

lemma load_gap: "loadVideo cv0 ''gap.avi'' player0 = (showing gap 0, True)"
  by (simp add: loadVideo_def file_capture_simps gap_def)

lemma seek_clip10_9: "seekToFrame cv0 9 (showing clip10 0) = (showing clip10 9, True)"
  by (simp add: seekToFrame_def file_capture_simps clip10_def word_sle_eq word_sless_alt)

lemma seek_clip10_3: "seekToFrame cv0 3 (showing clip10 0) = (showing clip10 3, True)"
  by (simp add: seekToFrame_def file_capture_simps clip10_def word_sle_eq word_sless_alt)

lemma seek_gap_2: "seekToFrame cv0 2 (showing gap 0) = (showing gap 2, True)"
  by (simp add: seekToFrame_def file_capture_simps gap_def word_sle_eq word_sless_alt)

section \<open>Signed arithmetic without overflow\<close>

lemma sint_cint_bounds: "- 2147483648 \<le> sint (x::cint)" "sint (x::cint) \<le> 2147483647"
  using sint_ge[of x] sint_lt[of x] by simp_all

lemma sint_sub1: "- 2147483648 < sint (x::cint) \<Longrightarrow> sint (x - 1) = sint x - 1"
  using sint_cint_bounds[of x]
  by (simp add: sint_word_ariths signed_take_bit_int_eq_self)

lemma sint_add1: "sint (x::cint) < 2147483647 \<Longrightarrow> sint (x + 1) = sint x + 1"
  using sint_cint_bounds[of x]
  by (simp add: sint_word_ariths signed_take_bit_int_eq_self)

lemma cint_of_sint: "sint (x::cint) = k \<Longrightarrow> x = word_of_int k"
  by auto

section \<open>Steps\<close>

lemma loadVideo_success_position:
  "loadVideo cv filename s0 = (s, True) \<Longrightarrow> currentFrameNumber s = 0"
  by (auto simp: loadVideo_def Let_def split: if_splits prod.splits)

lemma nextFrame_success:
  assumes "sint (currentFrameNumber s) < sint (totalFrames s) - 1"
    and "cap_read cv (cap s) (currentFrame s) = (c', m', True)"
  shows "nextFrame cv s =
           (s\<lparr>cap := c', currentFrame := m', currentFrameNumber := currentFrameNumber s + 1\<rparr>, True)"
    and "sint (currentFrameNumber s + 1) = sint (currentFrameNumber s) + 1"
proof -
  have lo: "- 2147483648 < sint (totalFrames s)"
    using assms(1) sint_cint_bounds(1)[of "currentFrameNumber s"] by linarith
  have t: "sint (totalFrames s - 1) = sint (totalFrames s) - 1"
    using lo by (rule sint_sub1)
  have g: "\<not> totalFrames s - 1 \<le>s currentFrameNumber s"
    using assms(1) t by (simp add: word_sle_eq)
  show "nextFrame cv s =
           (s\<lparr>cap := c', currentFrame := m', currentFrameNumber := currentFrameNumber s + 1\<rparr>, True)"
    using g assms(2) by (simp add: nextFrame_def)
  have "sint (currentFrameNumber s) < 2147483647"
    using assms(1) sint_cint_bounds(2)[of "totalFrames s"] by linarith
  then show "sint (currentFrameNumber s + 1) = sint (currentFrameNumber s) + 1"
    by (rule sint_add1)
qed

lemma nextFrames_run:
  "sint (currentFrameNumber s) + int n \<le> sint (totalFrames s) - 1 \<Longrightarrow>
   reads_succeed cv n (cap s) (currentFrame s) \<Longrightarrow>
   snd (nextFrames cv n s) = replicate n True \<and>
   sint (currentFrameNumber (fst (nextFrames cv n s))) = sint (currentFrameNumber s) + int n \<and>
   totalFrames (fst (nextFrames cv n s)) = totalFrames s"
proof (induction n arbitrary: s)
  case 0
  then show ?case by simp
next
  case (Suc n)
  obtain c' m' ok where r: "cap_read cv (cap s) (currentFrame s) = (c', m', ok)"
    by (cases "cap_read cv (cap s) (currentFrame s)") auto
  from Suc.prems(2) r have ok: "ok" and rest: "reads_succeed cv n c' m'"
    by simp_all
  let ?s' = "s\<lparr>cap := c', currentFrame := m', currentFrameNumber := currentFrameNumber s + 1\<rparr>"
  have lt: "sint (currentFrameNumber s) < sint (totalFrames s) - 1"
    using Suc.prems(1) by simp
  have step: "nextFrame cv s = (?s', True)"
    and inc: "sint (currentFrameNumber s + 1) = sint (currentFrameNumber s) + 1"
    using nextFrame_success [OF lt] r ok by simp_all
  have "sint (currentFrameNumber ?s') + int n \<le> sint (totalFrames ?s') - 1"
    using Suc.prems(1) inc by simp
  moreover have "reads_succeed cv n (cap ?s') (currentFrame ?s')"
    using rest by simp
  ultimately have IH:
    "snd (nextFrames cv n ?s') = replicate n True \<and>
     sint (currentFrameNumber (fst (nextFrames cv n ?s'))) = sint (currentFrameNumber ?s') + int n \<and>
     totalFrames (fst (nextFrames cv n ?s')) = totalFrames ?s'"
    by (rule Suc.IH)
  then show ?case
    using step inc by (auto split: prod.splits)
qed

text \<open>Each of the three calls keeps the position in range and the total as it is.\<close>

lemma nextFrame_keeps_range:
  assumes "in_range s"
  shows "in_range (fst (nextFrame cv s)) \<and> totalFrames (fst (nextFrame cv s)) = totalFrames s"
proof (cases "totalFrames s - 1 \<le>s currentFrameNumber s")
  case True
  then show ?thesis using assms by (simp add: nextFrame_def)
next
  case False
  have lo: "- 2147483648 < sint (totalFrames s)"
    using assms by (simp add: in_range_def)
  have t: "sint (totalFrames s - 1) = sint (totalFrames s) - 1"
    using lo by (rule sint_sub1)
  have lt: "sint (currentFrameNumber s) < sint (totalFrames s) - 1"
    using False t by (simp add: word_sle_eq)
  have "sint (currentFrameNumber s) < 2147483647"
    using lt sint_cint_bounds(2)[of "totalFrames s"] by linarith
  then have inc: "sint (currentFrameNumber s + 1) = sint (currentFrameNumber s) + 1"
    by (rule sint_add1)
  show ?thesis
    using False assms lt inc
    by (auto simp: nextFrame_def in_range_def split: prod.splits)
qed

lemma previousFrame_keeps_range:
  assumes "in_range s"
  shows "in_range (fst (previousFrame cv s)) \<and> totalFrames (fst (previousFrame cv s)) = totalFrames s"
proof (cases "currentFrameNumber s \<le>s 0")
  case True
  then show ?thesis using assms by (simp add: previousFrame_def)
next
  case False
  then have pos: "0 < sint (currentFrameNumber s)"
    by (simp add: word_sle_eq)
  then have dec: "sint (currentFrameNumber s - 1) = sint (currentFrameNumber s) - 1"
    by (intro sint_sub1) linarith
  show ?thesis
    using False assms pos dec
    by (auto simp: previousFrame_def in_range_def Let_def split: prod.splits)
qed

lemma seekToFrame_keeps_range:
  assumes "in_range s"
  shows "in_range (fst (seekToFrame cv n s)) \<and> totalFrames (fst (seekToFrame cv n s)) = totalFrames s"
  using assms
  by (auto simp: seekToFrame_def in_range_def Let_def word_sle_eq word_sless_alt split: prod.splits)

lemma do_call_keeps_range:
  "in_range s \<Longrightarrow> in_range (do_call cv c s) \<and> totalFrames (do_call cv c s) = totalFrames s"
  by (cases c) (simp_all add: nextFrame_keeps_range previousFrame_keeps_range seekToFrame_keeps_range)

lemma do_calls_keep_range:
  "in_range s \<Longrightarrow> in_range (do_calls cv cs s) \<and> totalFrames (do_calls cv cs s) = totalFrames s"
proof (induction cs arbitrary: s)
  case Nil
  then show ?case by simp
next
  case (Cons c cs)
  from do_call_keeps_range [OF Cons.prems, of cv c]
  have a: "in_range (do_call cv c s)" and b: "totalFrames (do_call cv c s) = totalFrames s"
    by simp_all
  from Cons.IH [OF a] b show ?case by simp
qed

section \<open>The prompt\<close>






section \<open>Properties\<close>

subsection \<open>Stepping backwards\<close>

text \<open>
  C9. At position 0, \<^verbatim>\<open>previousFrame\<close> returns false and hands back the player as it
  was: the position is still 0, and the decoder is the one it was given, for every
  decoder, so neither a seek nor a read was made.
\<close>

theorem previousFrame_at_start:
  "currentFrameNumber s = 0 \<Longrightarrow> previousFrame cv s = (s, False)"
  by (simp add: previousFrame_def)

theorem previousFrame_at_start_witness:
  "previousFrame cv0 (fst (loadVideo cv0 ''clip10.avi'' player0)) = (showing clip10 0, False)"
  using previousFrame_at_start [of "showing clip10 0" cv0]
  by (simp add: load_clip10 showing_def)

text \<open>
  C2, as the code has it. At a position \<open>p > 0\<close>, when the read that follows the seek
  to \<open>p - 1\<close> fails, \<^verbatim>\<open>previousFrame\<close> returns false and the position is \<open>p - 1\<close>: the
  decrement stays. The frame held is what the failed read left in it, not a decoded
  frame \<open>p - 1\<close>. The failure is the read's alone: the flag of the seek is dropped, so
  the statement holds whatever the seek returned.
\<close>

theorem previousFrame_read_failure:
  assumes "0 < sint (currentFrameNumber s)"
    and "\<not> snd (snd (cap_read cv
            (fst (cap_set cv (cap s) CAP_PROP_POS_FRAMES (to_double (currentFrameNumber s - 1))))
            (currentFrame s)))"
  shows "\<not> snd (previousFrame cv s) \<and>
         currentFrameNumber (fst (previousFrame cv s)) = currentFrameNumber s - 1 \<and>
         sint (currentFrameNumber (fst (previousFrame cv s))) = sint (currentFrameNumber s) - 1 \<and>
         currentFrame (fst (previousFrame cv s)) =
           fst (snd (cap_read cv
             (fst (cap_set cv (cap s) CAP_PROP_POS_FRAMES (to_double (currentFrameNumber s - 1))))
             (currentFrame s)))"
proof -
  have g: "\<not> currentFrameNumber s \<le>s 0"
    using assms(1) by (simp add: word_sle_eq)
  have d: "sint (currentFrameNumber s - 1) = sint (currentFrameNumber s) - 1"
    using assms(1) by (intro sint_sub1) linarith
  show ?thesis
    using g d assms(2) by (auto simp: previousFrame_def Let_def split: prod.splits)
qed

text \<open>
  In the file with the gap, from frame 2: frame 1 does not decode, the call fails, the
  position is 1 and the frame held is not frame 1.
\<close>

theorem previousFrame_read_failure_witness:
  "\<not> snd (previousFrame cv0 (showing gap 2)) \<and>
   currentFrameNumber (fst (previousFrame cv0 (showing gap 2))) = 1 \<and>
   currentFrame (fst (previousFrame cv0 (showing gap 2))) = Mat_empty"
proof -
  have p: "0 < sint (currentFrameNumber (showing gap 2))"
    by (simp add: showing_def)
  have bad: "\<not> snd (snd (cap_read cv0
      (fst (cap_set cv0 (cap (showing gap 2)) CAP_PROP_POS_FRAMES
         (to_double (currentFrameNumber (showing gap 2) - 1))))
      (currentFrame (showing gap 2))))"
    by (simp add: file_capture_simps gap_def)
  have f: "fst (snd (cap_read cv0
      (fst (cap_set cv0 (cap (showing gap 2)) CAP_PROP_POS_FRAMES
         (to_double (currentFrameNumber (showing gap 2) - 1))))
      (currentFrame (showing gap 2)))) = Mat_empty"
    by (simp add: file_capture_simps gap_def)
  have c: "currentFrameNumber (showing gap 2) - 1 = 1"
    by (simp add: showing_def)
  show ?thesis
    using previousFrame_read_failure [OF p bad] f c by simp
qed

text \<open>
  The claim as stated, with a failure of the seek among its causes, fails. On the
  decoder that cannot seek, from frame 3 of the ten-frame file: the seek to frame 2
  returns false, the read that follows succeeds with the next frame in sequence, and
  \<^verbatim>\<open>previousFrame\<close> returns true, at position 2 with frame 4 held.
\<close>

theorem previousFrame_read_failure_counterexample:
  "currentFrameNumber (showing clip10 3) = 3 \<and>
   \<not> snd (cap_set (no_seek cv0) (cap (showing clip10 3)) CAP_PROP_POS_FRAMES (to_double 2)) \<and>
   snd (previousFrame (no_seek cv0) (showing clip10 3)) \<and>
   currentFrameNumber (fst (previousFrame (no_seek cv0) (showing clip10 3))) = 2 \<and>
   currentFrame (fst (previousFrame (no_seek cv0) (showing clip10 3))) = Mat_image 4"
  by (simp add: previousFrame_def no_seek_def file_capture_simps clip10_def word_sle_eq)

subsection \<open>Stepping forwards\<close>

text \<open>
  C3. Whenever \<^verbatim>\<open>nextFrame\<close> returns false the position is the one before the call.
  It returns false in both cases the claim names: at the last index
  \<open>totalFrames - 1\<close> (and then nothing at all has changed), and when the sequential
  read fails.
\<close>

theorem nextFrame_failure:
  "(\<not> snd (nextFrame cv s) \<longrightarrow>
      currentFrameNumber (fst (nextFrame cv s)) = currentFrameNumber s) \<and>
   (sint (currentFrameNumber s) = sint (totalFrames s) - 1 \<longrightarrow> nextFrame cv s = (s, False)) \<and>
   (\<not> snd (snd (cap_read cv (cap s) (currentFrame s))) \<longrightarrow> \<not> snd (nextFrame cv s))"
proof (intro conjI impI)
  assume "\<not> snd (nextFrame cv s)"
  then show "currentFrameNumber (fst (nextFrame cv s)) = currentFrameNumber s"
    by (auto simp: nextFrame_def split: if_splits prod.splits)
next
  assume a: "sint (currentFrameNumber s) = sint (totalFrames s) - 1"
  have "- 2147483648 < sint (totalFrames s)"
    using a sint_cint_bounds(1)[of "currentFrameNumber s"] by linarith
  then have "sint (totalFrames s - 1) = sint (totalFrames s) - 1"
    by (rule sint_sub1)
  with a show "nextFrame cv s = (s, False)"
    by (simp add: nextFrame_def word_sle_eq)
next
  assume "\<not> snd (snd (cap_read cv (cap s) (currentFrame s)))"
  then show "\<not> snd (nextFrame cv s)"
    by (auto simp: nextFrame_def split: prod.splits)
qed

text \<open>
  At the last frame of the ten-frame file; and at frame 0 of the file with the gap,
  where the read of frame 1 fails before the end of the stream.
\<close>

theorem nextFrame_failure_witness:
  "nextFrame cv0 (showing clip10 9) = (showing clip10 9, False) \<and>
   \<not> snd (nextFrame cv0 (showing gap 0)) \<and>
   currentFrameNumber (fst (nextFrame cv0 (showing gap 0))) = 0"
proof -
  have last: "sint (currentFrameNumber (showing clip10 9)) = sint (totalFrames (showing clip10 9)) - 1"
    by (simp add: file_capture_simps clip10_def)
  have bad: "\<not> snd (snd (cap_read cv0 (cap (showing gap 0)) (currentFrame (showing gap 0))))"
    by (simp add: file_capture_simps gap_def)
  have pos: "currentFrameNumber (showing gap 0) = 0"
    by (simp add: showing_def)
  show ?thesis
    using nextFrame_failure [of cv0 "showing clip10 9"] nextFrame_failure [of cv0 "showing gap 0"]
      last bad pos by simp
qed

subsection \<open>Seeking\<close>

text \<open>
  C4. For every \<open>n\<close> in \<open>[0, totalFrames - 1]\<close>, when the read after the seek to \<open>n\<close>
  succeeds, \<^verbatim>\<open>seekToFrame(n)\<close> returns true and \<^verbatim>\<open>getCurrentFrame\<close> then returns \<open>n\<close>.
\<close>

theorem seekToFrame_in_range:
  assumes "0 \<le> sint n" and "sint n \<le> sint (totalFrames s) - 1"
    and "snd (snd (cap_read cv
            (fst (cap_set cv (cap s) CAP_PROP_POS_FRAMES (to_double n))) (currentFrame s)))"
  shows "snd (seekToFrame cv n s) \<and> getCurrentFrame (fst (seekToFrame cv n s)) = n"
proof -
  have g: "\<not> (n <s 0 \<or> totalFrames s \<le>s n)"
    using assms(1,2) by (simp add: word_sle_eq word_sless_alt)
  show ?thesis
    using g assms(3) by (auto simp: seekToFrame_def getCurrentFrame_def Let_def split: prod.splits)
qed

theorem seekToFrame_in_range_witness:
  "snd (seekToFrame cv0 7 (showing clip10 0)) \<and>
   getCurrentFrame (fst (seekToFrame cv0 7 (showing clip10 0))) = 7"
proof -
  have a: "0 \<le> sint (7::cint)" by simp
  have b: "sint (7::cint) \<le> sint (totalFrames (showing clip10 0)) - 1"
    by (simp add: file_capture_simps clip10_def)
  have c: "snd (snd (cap_read cv0
      (fst (cap_set cv0 (cap (showing clip10 0)) CAP_PROP_POS_FRAMES (to_double 7)))
      (currentFrame (showing clip10 0))))"
    by (simp add: file_capture_simps clip10_def)
  show ?thesis
    by (rule seekToFrame_in_range [OF a b c])
qed

text \<open>
  C5. For every target outside \<open>[0, totalFrames - 1]\<close>, and so for \<open>-1\<close> and for
  \<open>totalFrames\<close>, \<^verbatim>\<open>seekToFrame\<close> returns false and hands back the player as it was:
  same position, and the decoder it was given, for every decoder, so neither a seek
  nor a read was made.
\<close>

theorem seekToFrame_out_of_range:
  "(sint n < 0 \<or> sint (totalFrames s) - 1 < sint n \<longrightarrow> seekToFrame cv n s = (s, False)) \<and>
   seekToFrame cv (- 1) s = (s, False) \<and>
   seekToFrame cv (totalFrames s) s = (s, False)"
  by (auto simp: seekToFrame_def word_sle_eq word_sless_alt Let_def)

theorem seekToFrame_out_of_range_witness:
  "seekToFrame cv0 10 (showing clip10 3) = (showing clip10 3, False) \<and>
   seekToFrame cv0 (- 1) (showing clip10 3) = (showing clip10 3, False) \<and>
   seekToFrame cv0 (- 5) (showing clip10 3) = (showing clip10 3, False) \<and>
   seekToFrame cv0 11 (showing clip10 3) = (showing clip10 3, False)"
proof -
  have t: "totalFrames (showing clip10 3) = 10"
    by (simp add: file_capture_simps clip10_def)
  have a: "sint (- 5 :: cint) < 0 \<or> sint (totalFrames (showing clip10 3)) - 1 < sint (- 5 :: cint)"
    by simp
  have b: "sint (11 :: cint) < 0 \<or> sint (totalFrames (showing clip10 3)) - 1 < sint (11 :: cint)"
    by (simp add: t)
  show ?thesis
    using seekToFrame_out_of_range [of "- 5" "showing clip10 3" cv0]
      seekToFrame_out_of_range [of 11 "showing clip10 3" cv0] a b t by simp
qed

subsection \<open>Sequences of calls\<close>

text \<open>
  C8. After a successful load of a video of ten frames, where the next nine sequential
  reads succeed, nine calls of \<^verbatim>\<open>nextFrame\<close> in a row all return true and leave the
  position at 9, and a tenth call returns false (the position still 9).
\<close>

theorem ten_frame_walk:
  assumes "loadVideo cv filename s0 = (s, True)"
    and "totalFrames s = 10"
    and "reads_succeed cv 9 (cap s) (currentFrame s)"
  shows "snd (nextFrames cv 9 s) = replicate 9 True \<and>
         getCurrentFrame (fst (nextFrames cv 9 s)) = 9 \<and>
         \<not> snd (nextFrame cv (fst (nextFrames cv 9 s))) \<and>
         getCurrentFrame (fst (nextFrame cv (fst (nextFrames cv 9 s)))) = 9"
proof -
  have p0: "currentFrameNumber s = 0"
    using assms(1) by (rule loadVideo_success_position)
  have "sint (currentFrameNumber s) + int 9 \<le> sint (totalFrames s) - 1"
    using p0 assms(2) by simp
  from nextFrames_run [OF this assms(3)]
  have flags: "snd (nextFrames cv 9 s) = replicate 9 True"
    and p: "sint (currentFrameNumber (fst (nextFrames cv 9 s))) = 9"
    and t: "totalFrames (fst (nextFrames cv 9 s)) = 10"
    using p0 assms(2) by simp_all
  have p9: "currentFrameNumber (fst (nextFrames cv 9 s)) = 9"
    using cint_of_sint [OF p] by simp
  have stop: "nextFrame cv (fst (nextFrames cv 9 s)) = (fst (nextFrames cv 9 s), False)"
    using p9 t by (simp add: nextFrame_def word_sle_eq)
  show ?thesis
    using flags p9 stop by (simp add: getCurrentFrame_def)
qed

theorem ten_frame_walk_witness:
  "snd (nextFrames cv0 9 (fst (loadVideo cv0 ''clip10.avi'' player0))) = replicate 9 True \<and>
   getCurrentFrame (fst (nextFrames cv0 9 (fst (loadVideo cv0 ''clip10.avi'' player0)))) = 9 \<and>
   \<not> snd (nextFrame cv0 (fst (nextFrames cv0 9 (fst (loadVideo cv0 ''clip10.avi'' player0)))))"
proof -
  have t: "totalFrames (showing clip10 0) = 10"
    by (simp add: file_capture_simps clip10_def)
  have r: "reads_succeed cv0 9 (cap (showing clip10 0)) (currentFrame (showing clip10 0))"
    by (simp add: eval_nat_numeral file_capture_simps clip10_def)
  show ?thesis
    using ten_frame_walk [OF load_clip10 t r] by (simp add: load_clip10)
qed

text \<open>
  C10. After a successful load with \<open>totalFrames \<ge> 1\<close>, whatever sequence of
  \<^verbatim>\<open>nextFrame\<close>, \<^verbatim>\<open>previousFrame\<close> and \<^verbatim>\<open>seekToFrame\<close> calls follows, and whichever
  of them fail, the position is in \<open>[0, totalFrames - 1]\<close> afterwards (and the total
  is the loaded one).
\<close>

theorem position_stays_in_range:
  assumes "loadVideo cv filename s0 = (s, True)" and "1 \<le> sint (totalFrames s)"
  shows "0 \<le> sint (currentFrameNumber (do_calls cv calls s)) \<and>
         sint (currentFrameNumber (do_calls cv calls s)) \<le> sint (totalFrames s) - 1 \<and>
         totalFrames (do_calls cv calls s) = totalFrames s"
proof -
  have "currentFrameNumber s = 0"
    using assms(1) by (rule loadVideo_success_position)
  then have "in_range s"
    using assms(2) by (simp add: in_range_def)
  from do_calls_keep_range [OF this, of cv calls] show ?thesis
    by (auto simp: in_range_def)
qed

text \<open>
  In the file with the gap: a seek to the last frame, a step back that fails on the
  frame that does not decode, a step forward at once, a seek out of range, and three
  more steps back.
\<close>

theorem position_stays_in_range_witness:
  "0 \<le> sint (currentFrameNumber
      (do_calls cv0
        [SeekToFrame 2, PreviousFrame, NextFrame, SeekToFrame 7, PreviousFrame, PreviousFrame,
         PreviousFrame]
        (fst (loadVideo cv0 ''gap.avi'' player0)))) \<and>
   sint (currentFrameNumber
      (do_calls cv0
        [SeekToFrame 2, PreviousFrame, NextFrame, SeekToFrame 7, PreviousFrame, PreviousFrame,
         PreviousFrame]
        (fst (loadVideo cv0 ''gap.avi'' player0)))) \<le> 2"
proof -
  have t: "totalFrames (showing gap 0) = 3"
    by (simp add: file_capture_simps gap_def)
  have h: "1 \<le> sint (totalFrames (showing gap 0))"
    by (simp add: t)
  show ?thesis
    using position_stays_in_range [OF load_gap h,
        of "[SeekToFrame 2, PreviousFrame, NextFrame, SeekToFrame 7, PreviousFrame, PreviousFrame,
             PreviousFrame]"]
    by (simp add: load_gap t)
qed

subsection \<open>The jump-to-frame prompt\<close>




subsection \<open>Loading\<close>

text \<open>
  C1, as the code has it. When the file does not open, \<^verbatim>\<open>loadVideo\<close> returns false, the
  stream is not open, and total, rate, position and held frame are as before. When
  it opens, the flag returned is the flag of the first read, whatever the frame count;
  total and rate have been taken from the stream and the position set to 0 before
  that read, and stay so when it fails; the decoder is left as the read left it.
\<close>

theorem loadVideo_failure:
  "(\<not> cap_isOpened cv (fst (cap_open cv (cap s) filename)) \<longrightarrow>
      \<not> snd (loadVideo cv filename s) \<and>
      \<not> cap_isOpened cv (cap (fst (loadVideo cv filename s))) \<and>
      totalFrames (fst (loadVideo cv filename s)) = totalFrames s \<and>
      fps (fst (loadVideo cv filename s)) = fps s \<and>
      currentFrameNumber (fst (loadVideo cv filename s)) = currentFrameNumber s \<and>
      currentFrame (fst (loadVideo cv filename s)) = currentFrame s) \<and>
   (cap_isOpened cv (fst (cap_open cv (cap s) filename)) \<longrightarrow>
      snd (loadVideo cv filename s) =
        snd (snd (cap_read cv (fst (cap_open cv (cap s) filename)) (currentFrame s))) \<and>
      cap (fst (loadVideo cv filename s)) =
        fst (cap_read cv (fst (cap_open cv (cap s) filename)) (currentFrame s)) \<and>
      totalFrames (fst (loadVideo cv filename s)) =
        static_cast_int (cap_get cv (fst (cap_open cv (cap s) filename)) CAP_PROP_FRAME_COUNT) \<and>
      fps (fst (loadVideo cv filename s)) =
        cap_get cv (fst (cap_open cv (cap s) filename)) CAP_PROP_FPS \<and>
      currentFrameNumber (fst (loadVideo cv filename s)) = 0)"
  by (auto simp: loadVideo_def Let_def split: prod.splits)

theorem loadVideo_failure_witness:
  "\<not> snd (loadVideo cv0 ''nofile.avi'' (showing clip10 3)) \<and>
   \<not> cap_isOpened cv0 (cap (fst (loadVideo cv0 ''nofile.avi'' (showing clip10 3)))) \<and>
   totalFrames (fst (loadVideo cv0 ''nofile.avi'' (showing clip10 3))) = 10 \<and>
   fps (fst (loadVideo cv0 ''nofile.avi'' (showing clip10 3))) = 25 \<and>
   currentFrameNumber (fst (loadVideo cv0 ''nofile.avi'' (showing clip10 3))) = 3 \<and>
   \<not> snd (loadVideo cv0 ''broken.avi'' player0) \<and>
   totalFrames (fst (loadVideo cv0 ''broken.avi'' player0)) = 10 \<and>
   fps (fst (loadVideo cv0 ''broken.avi'' player0)) = 25 \<and>
   snd (loadVideo cv0 ''uncounted.avi'' player0) \<and>
   totalFrames (fst (loadVideo cv0 ''uncounted.avi'' player0)) = 0"
proof -
  have a: "\<not> cap_isOpened cv0 (fst (cap_open cv0 (cap (showing clip10 3)) ''nofile.avi''))"
    by (simp add: file_capture_simps)
  have b: "cap_isOpened cv0 (fst (cap_open cv0 (cap player0) ''broken.avi''))"
    by (simp add: file_capture_simps)
  have c: "cap_isOpened cv0 (fst (cap_open cv0 (cap player0) ''uncounted.avi''))"
    by (simp add: file_capture_simps)
  have ev: "\<not> snd (snd (cap_read cv0 (fst (cap_open cv0 (cap player0) ''broken.avi'')) (currentFrame player0)))"
    "static_cast_int (cap_get cv0 (fst (cap_open cv0 (cap player0) ''broken.avi'')) CAP_PROP_FRAME_COUNT) = 10"
    "cap_get cv0 (fst (cap_open cv0 (cap player0) ''broken.avi'')) CAP_PROP_FPS = 25"
    "snd (snd (cap_read cv0 (fst (cap_open cv0 (cap player0) ''uncounted.avi'')) (currentFrame player0)))"
    "static_cast_int (cap_get cv0 (fst (cap_open cv0 (cap player0) ''uncounted.avi'')) CAP_PROP_FRAME_COUNT) = 0"
    by (simp_all add: file_capture_simps broken_def uncounted_def)
  have st: "totalFrames (showing clip10 3) = 10" "fps (showing clip10 3) = 25"
    "currentFrameNumber (showing clip10 3) = 3"
    by (simp_all add: file_capture_simps clip10_def)
  show ?thesis
    using loadVideo_failure [of cv0 "showing clip10 3" "''nofile.avi''"]
      loadVideo_failure [of cv0 player0 "''broken.avi''"]
      loadVideo_failure [of cv0 player0 "''uncounted.avi''"] a b c ev st
    by simp
qed

text \<open>
  The claim as stated fails. The file whose frames do not decode: the load returns
  false, and yet the stream is open, a position of 3 has become 0, and a fresh
  player's total and rate have gone from 0 and 30 to 10 and 25. The file whose header
  counts no frames: the load returns true with a total of 0.
\<close>

theorem loadVideo_failure_counterexample:
  "\<not> snd (loadVideo cv0 ''broken.avi'' (showing clip10 3)) \<and>
   cap_isOpened cv0 (cap (fst (loadVideo cv0 ''broken.avi'' (showing clip10 3)))) \<and>
   currentFrameNumber (showing clip10 3) = 3 \<and>
   currentFrameNumber (fst (loadVideo cv0 ''broken.avi'' (showing clip10 3))) = 0 \<and>
   totalFrames player0 = 0 \<and>
   totalFrames (fst (loadVideo cv0 ''broken.avi'' player0)) = 10 \<and>
   fps player0 = 30 \<and>
   fps (fst (loadVideo cv0 ''broken.avi'' player0)) = 25 \<and>
   cap_isOpened cv0 (cap (fst (loadVideo cv0 ''broken.avi'' player0))) \<and>
   totalFrames (fst (loadVideo cv0 ''uncounted.avi'' player0)) = 0 \<and>
   snd (loadVideo cv0 ''uncounted.avi'' player0)"
  by (simp add: loadVideo_def file_capture_simps broken_def uncounted_def)

subsection \<open>The held frame\<close>

text \<open>
  C7, as the code has it. A call stopped by its guard returns the player as it was,
  held image included. Every other call returns the flag of its read and holds
  afterwards the image that read left in the \<^verbatim>\<open>Mat\<close> it was passed by reference, on
  success and on failure alike: the player neither clears nor restores the image.
\<close>

theorem held_frame:
  "(totalFrames s - 1 \<le>s currentFrameNumber s \<longrightarrow> nextFrame cv s = (s, False)) \<and>
   (currentFrameNumber s \<le>s 0 \<longrightarrow> previousFrame cv s = (s, False)) \<and>
   (n <s 0 \<or> totalFrames s \<le>s n \<longrightarrow> seekToFrame cv n s = (s, False)) \<and>
   (\<not> totalFrames s - 1 \<le>s currentFrameNumber s \<longrightarrow>
      currentFrame (fst (nextFrame cv s)) = fst (snd (cap_read cv (cap s) (currentFrame s))) \<and>
      snd (nextFrame cv s) = snd (snd (cap_read cv (cap s) (currentFrame s)))) \<and>
   (\<not> currentFrameNumber s \<le>s 0 \<longrightarrow>
      currentFrame (fst (previousFrame cv s)) =
        fst (snd (cap_read cv
          (fst (cap_set cv (cap s) CAP_PROP_POS_FRAMES (to_double (currentFrameNumber s - 1))))
          (currentFrame s))) \<and>
      snd (previousFrame cv s) =
        snd (snd (cap_read cv
          (fst (cap_set cv (cap s) CAP_PROP_POS_FRAMES (to_double (currentFrameNumber s - 1))))
          (currentFrame s)))) \<and>
   (\<not> (n <s 0 \<or> totalFrames s \<le>s n) \<longrightarrow>
      currentFrame (fst (seekToFrame cv n s)) =
        fst (snd (cap_read cv
          (fst (cap_set cv (cap s) CAP_PROP_POS_FRAMES (to_double n))) (currentFrame s))) \<and>
      snd (seekToFrame cv n s) =
        snd (snd (cap_read cv
          (fst (cap_set cv (cap s) CAP_PROP_POS_FRAMES (to_double n))) (currentFrame s))))"
proof (intro conjI impI)
  assume "\<not> totalFrames s - 1 \<le>s currentFrameNumber s"
  then show "currentFrame (fst (nextFrame cv s)) = fst (snd (cap_read cv (cap s) (currentFrame s)))"
    and "snd (nextFrame cv s) = snd (snd (cap_read cv (cap s) (currentFrame s)))"
    by (auto simp: nextFrame_def split: prod.splits)
next
  assume "\<not> currentFrameNumber s \<le>s 0"
  then show "currentFrame (fst (previousFrame cv s)) =
        fst (snd (cap_read cv
          (fst (cap_set cv (cap s) CAP_PROP_POS_FRAMES (to_double (currentFrameNumber s - 1))))
          (currentFrame s)))"
    and "snd (previousFrame cv s) =
        snd (snd (cap_read cv
          (fst (cap_set cv (cap s) CAP_PROP_POS_FRAMES (to_double (currentFrameNumber s - 1))))
          (currentFrame s)))"
    by (auto simp: previousFrame_def Let_def split: prod.splits)
next
  assume "\<not> (n <s 0 \<or> totalFrames s \<le>s n)"
  then show "currentFrame (fst (seekToFrame cv n s)) =
        fst (snd (cap_read cv
          (fst (cap_set cv (cap s) CAP_PROP_POS_FRAMES (to_double n))) (currentFrame s)))"
    and "snd (seekToFrame cv n s) =
        snd (snd (cap_read cv
          (fst (cap_set cv (cap s) CAP_PROP_POS_FRAMES (to_double n))) (currentFrame s)))"
    by (auto simp: seekToFrame_def Let_def split: prod.splits)
qed (simp_all add: nextFrame_def previousFrame_def seekToFrame_def)

theorem held_frame_witness:
  "nextFrame cv0 (showing clip10 9) = (showing clip10 9, False) \<and>
   previousFrame cv0 (showing clip10 0) = (showing clip10 0, False) \<and>
   seekToFrame cv0 10 (showing clip10 0) = (showing clip10 0, False) \<and>
   \<not> snd (nextFrame (keep_on_failure cv0) (showing gap 0)) \<and>
   currentFrame (fst (nextFrame (keep_on_failure cv0) (showing gap 0))) = Mat_image 0 \<and>
   \<not> snd (previousFrame (keep_on_failure cv0) (showing gap 2)) \<and>
   currentFrame (fst (previousFrame (keep_on_failure cv0) (showing gap 2))) = Mat_image 2 \<and>
   snd (seekToFrame cv0 7 (showing clip10 0)) \<and>
   currentFrame (fst (seekToFrame cv0 7 (showing clip10 0))) = Mat_image 7"
proof -
  have g1: "totalFrames (showing clip10 9) - 1 \<le>s currentFrameNumber (showing clip10 9)"
    by (simp add: file_capture_simps clip10_def word_sle_eq)
  have g2: "currentFrameNumber (showing clip10 0) \<le>s 0"
    by (simp add: showing_def)
  have g3: "(10::cint) <s 0 \<or> totalFrames (showing clip10 0) \<le>s 10"
    by (simp add: file_capture_simps clip10_def word_sle_eq)
  have n1: "\<not> totalFrames (showing gap 0) - 1 \<le>s currentFrameNumber (showing gap 0)"
    by (simp add: file_capture_simps gap_def word_sle_eq)
  have n2: "\<not> currentFrameNumber (showing gap 2) \<le>s 0"
    by (simp add: showing_def word_sle_eq)
  have n3: "\<not> ((7::cint) <s 0 \<or> totalFrames (showing clip10 0) \<le>s 7)"
    by (simp add: file_capture_simps clip10_def word_sle_eq word_sless_alt)
  have r1: "cap_read (keep_on_failure cv0) (cap (showing gap 0)) (currentFrame (showing gap 0)) =
      (\<lparr>src = Some gap, pos = 2\<rparr>, Mat_image 0, False)"
    by (simp add: keep_on_failure_def file_capture_simps gap_def)
  have r2: "cap_read (keep_on_failure cv0)
      (fst (cap_set (keep_on_failure cv0) (cap (showing gap 2)) CAP_PROP_POS_FRAMES
         (to_double (currentFrameNumber (showing gap 2) - 1))))
      (currentFrame (showing gap 2)) = (\<lparr>src = Some gap, pos = 2\<rparr>, Mat_image 2, False)"
    by (simp add: keep_on_failure_def file_capture_simps gap_def)
  have r3: "cap_read cv0
      (fst (cap_set cv0 (cap (showing clip10 0)) CAP_PROP_POS_FRAMES (to_double 7)))
      (currentFrame (showing clip10 0)) = (\<lparr>src = Some clip10, pos = 8\<rparr>, Mat_image 7, True)"
    by (simp add: file_capture_simps clip10_def)
  show ?thesis
    using held_frame [of "showing clip10 9" cv0 10] held_frame [of "showing clip10 0" cv0 10]
      held_frame [of "showing gap 0" "keep_on_failure cv0" 7]
      held_frame [of "showing gap 2" "keep_on_failure cv0" 7]
      held_frame [of "showing clip10 0" cv0 7]
      g1 g2 g3 n1 n2 n3 r1 r2 r3
    by simp
qed

text \<open>
  The claim as stated fails with a decoder that empties the image when its read
  fails, as \<^verbatim>\<open>cv::VideoCapture::read\<close> does: after the failed call the image held before
  is gone.
\<close>

theorem held_frame_counterexample:
  "currentFrame (showing gap 0) = Mat_image 0 \<and>
   \<not> snd (nextFrame cv0 (showing gap 0)) \<and>
   currentFrame (fst (nextFrame cv0 (showing gap 0))) = Mat_empty \<and>
   currentFrame (showing gap 2) = Mat_image 2 \<and>
   \<not> snd (previousFrame cv0 (showing gap 2)) \<and>
   currentFrame (fst (previousFrame cv0 (showing gap 2))) = Mat_empty \<and>
   \<not> snd (seekToFrame cv0 1 (showing gap 0)) \<and>
   currentFrame (fst (seekToFrame cv0 1 (showing gap 0))) = Mat_empty"
  by (simp add: nextFrame_def previousFrame_def seekToFrame_def file_capture_simps gap_def
      word_sle_eq word_sless_alt)

end
